theory Spec2Isabelle
  imports Main "HOL-Library.AList"
begin

section \<open>Python values, dictionaries and errors\<close>

text \<open>
  The catalogs of \<^verbatim>\<open>resources.py\<close> are dictionaries whose entries are again
  dictionaries holding strings (\<^verbatim>\<open>"name"\<close>, \<^verbatim>\<open>"unit"\<close>, \<^verbatim>\<open>"desc"\<close>) and
  integers (\<^verbatim>\<open>"calories"\<close>, material quantities) side by side, and a dictionary can
  hold another dictionary, which it does by reference. A value is therefore an integer
  (Python's unbounded \<^verbatim>\<open>int\<close>), a string, or the address of a dictionary object.

  A Python \<^verbatim>\<open>dict\<close> keeps its keys in insertion order and \<^verbatim>\<open>.items()\<close> walks them
  in that order, so a dictionary is an association list; a dictionary literal or a
  dictionary built by assignments never repeats a key. Lookup is \<^const>\<open>map_of\<close>,
  item assignment \<^verbatim>\<open>d[k] = v\<close> is \<^const>\<open>AList.update\<close> (overwrite in place, or append
  a new key at the end).
\<close>

type_synonym addr = nat

datatype pyval = PyInt int | PyStr string | PyRef addr

type_synonym 'v pydict = "(string \<times> 'v) list"

datatype error =
    ValueError string
  | KeyError string
  | ZeroDivisionError
  | TypeError
  | AttributeError

text \<open>\<^verbatim>\<open>d[k]\<close>: raises \<^verbatim>\<open>KeyError\<close> on a missing key.\<close>

definition getitem :: "'v pydict \<Rightarrow> string \<Rightarrow> error + 'v" where
  "getitem d k = (case map_of d k of None \<Rightarrow> Inl (KeyError k) | Some v \<Rightarrow> Inr v)"

text \<open>\<^verbatim>\<open>d.get(k, default)\<close>.\<close>

definition get_default :: "'v pydict \<Rightarrow> string \<Rightarrow> 'v \<Rightarrow> 'v" where
  "get_default d k dflt = (case map_of d k of None \<Rightarrow> dflt | Some v \<Rightarrow> v)"

text \<open>
  \<^verbatim>\<open>a // b\<close> and \<^verbatim>\<open>a % b\<close> with an integer on the left: floor division and the
  remainder with the sign of the divisor (as \<open>div\<close> and \<open>mod\<close> on \<^typ>\<open>int\<close>),
  \<^verbatim>\<open>ZeroDivisionError\<close> for a zero divisor, \<^verbatim>\<open>TypeError\<close> for a string or a
  dictionary on the right.
\<close>

definition py_floordiv :: "int \<Rightarrow> pyval \<Rightarrow> error + int" where
  "py_floordiv a b =
     (case b of
        PyInt c \<Rightarrow> if c = 0 then Inl ZeroDivisionError else Inr (a div c)
      | PyStr s \<Rightarrow> Inl TypeError
      | PyRef r \<Rightarrow> Inl TypeError)"

definition py_mod :: "int \<Rightarrow> pyval \<Rightarrow> error + int" where
  "py_mod a b =
     (case b of
        PyInt c \<Rightarrow> if c = 0 then Inl ZeroDivisionError else Inr (a mod c)
      | PyStr s \<Rightarrow> Inl TypeError
      | PyRef r \<Rightarrow> Inl TypeError)"

section \<open>The catalogs of resources.py\<close>

definition RESOURCES :: "pyval pydict pydict" where
  "RESOURCES =
    [(''water'', [(''name'', PyStr ''Water''), (''unit'', PyStr ''kg''),
                  (''desc'', PyStr ''Liquid water'')]),
     (''oxygen'', [(''name'', PyStr ''Oxygen''), (''unit'', PyStr ''kg''),
                   (''desc'', PyStr ''Breathable O2'')]),
     (''algae'', [(''name'', PyStr ''Algae''), (''unit'', PyStr ''kg''),
                  (''desc'', PyStr ''Algae for oxygen production'')]),
     (''coal'', [(''name'', PyStr ''Coal''), (''unit'', PyStr ''kg''),
                 (''desc'', PyStr ''Fuel for generators'')]),
     (''iron_ore'', [(''name'', PyStr ''Iron Ore''), (''unit'', PyStr ''kg''),
                     (''desc'', PyStr ''Basic building material'')])]"

definition FOODS :: "pyval pydict pydict" where
  "FOODS =
    [(''mushroom'', [(''name'', PyStr ''Mushroom''), (''calories'', PyInt 120),
                     (''unit'', PyStr ''kg''), (''desc'', PyStr ''Raw food'')]),
     (''grilled_mushroom'', [(''name'', PyStr ''Grilled Mushroom''), (''calories'', PyInt 400),
                             (''unit'', PyStr ''plate''), (''desc'', PyStr ''Cooked meal'')]),
     (''basic_meal'', [(''name'', PyStr ''Basic Meal''), (''calories'', PyInt 1200),
                       (''unit'', PyStr ''plate''), (''desc'', PyStr ''Full meal'')])]"

definition BUILDINGS :: "pyval pydict pydict" where
  "BUILDINGS =
    [(''simple_bed'', [(''name'', PyStr ''Simple Cot''), (''iron_ore'', PyInt 20)]),
     (''oxygen_generator'', [(''name'', PyStr ''O2 Generator''), (''iron_ore'', PyInt 50),
                             (''algae'', PyInt 10)]),
     (''water_pump'', [(''name'', PyStr ''Water Pump''), (''iron_ore'', PyInt 40)])]"

section \<open>compute_requirements\<close>

text \<open>
  The dictionary the function returns, and its nested \<^verbatim>\<open>"food"\<close> dictionary. The type
  of the \<^verbatim>\<open>"materials"\<close> field is a parameter: the totals themselves here, the address
  of the totals in the heap model below.
\<close>

record food_detail =
  fd_key :: string
  fd_units :: int
  fd_unit :: "pyval option"

record 'm requirements =
  req_duplicants :: int
  req_days :: int
  req_food :: food_detail
  req_materials :: 'm

text \<open>
  The inner loop \<^verbatim>\<open>for res_key, qty in info.items()\<close>, started on the running
  \<^verbatim>\<open>materials\<close>. The \<^verbatim>\<open>"name"\<close> entry is skipped. For any other entry the code
  evaluates \<^verbatim>\<open>materials.get(res_key, 0) + qty * count\<close>: with an integer \<^verbatim>\<open>qty\<close>
  that is integer arithmetic; with a string \<^verbatim>\<open>qty\<close> the product is a string and adding
  it to the integer on the left raises \<^verbatim>\<open>TypeError\<close>, and with a dictionary the
  product already does.
\<close>

fun add_resources :: "int pydict \<Rightarrow> pyval pydict \<Rightarrow> int \<Rightarrow> error + int pydict" where
  "add_resources materials [] count = Inr materials"
| "add_resources materials ((res_key, qty) # rest) count =
     (if res_key = ''name'' then add_resources materials rest count
      else case qty of
             PyInt q \<Rightarrow>
               add_resources
                 (AList.update res_key (get_default materials res_key 0 + q * count) materials)
                 rest count
           | PyStr s \<Rightarrow> Inl TypeError
           | PyRef r \<Rightarrow> Inl TypeError)"

text \<open>
  The outer loop \<^verbatim>\<open>for bkey, count in buildings.items()\<close>. \<^verbatim>\<open>BUILDINGS.get(bkey)\<close>
  is \<^verbatim>\<open>None\<close> for an unknown key, and \<^verbatim>\<open>not info\<close> also holds for an empty entry;
  both \<^verbatim>\<open>continue\<close>.
\<close>

fun material_totals :: "int pydict \<Rightarrow> int pydict \<Rightarrow> error + int pydict" where
  "material_totals materials [] = Inr materials"
| "material_totals materials ((bkey, count) # rest) =
     (case map_of BUILDINGS bkey of
        None \<Rightarrow> material_totals materials rest
      | Some info \<Rightarrow>
          if info = [] then material_totals materials rest
          else (case add_resources materials info count of
                  Inl e \<Rightarrow> Inl e
                | Inr materials' \<Rightarrow> material_totals materials' rest))"

definition compute_requirements ::
    "int \<Rightarrow> int \<Rightarrow> string \<Rightarrow> int pydict \<Rightarrow> error + int pydict requirements" where
  "compute_requirements duplicants days food_key buildings =
     (case map_of FOODS food_key of
        None \<Rightarrow> Inl (ValueError (''Unknown food: '' @ food_key))
      | Some food_info \<Rightarrow>
          (case getitem food_info ''calories'' of
             Inl e \<Rightarrow> Inl e
           | Inr calories_per_unit \<Rightarrow>
               (let calories_per_duplicant_per_day = 1200;
                    total_calories_needed = duplicants * days * calories_per_duplicant_per_day
                in case py_floordiv total_calories_needed calories_per_unit of
                     Inl e \<Rightarrow> Inl e
                   | Inr units_floor \<Rightarrow>
                       (case py_mod total_calories_needed calories_per_unit of
                          Inl e \<Rightarrow> Inl e
                        | Inr left_over \<Rightarrow>
                            (let units_needed =
                                   (if left_over \<noteq> 0 then units_floor + 1 else units_floor)
                             in case material_totals [] buildings of
                                  Inl e \<Rightarrow> Inl e
                                | Inr materials \<Rightarrow>
                                    Inr \<lparr> req_duplicants = duplicants,
                                          req_days = days,
                                          req_food = \<lparr> fd_key = food_key,
                                                       fd_units = units_needed,
                                                       fd_unit = map_of food_info ''unit'' \<rparr>,
                                          req_materials = materials \<rparr>)))))"

section \<open>compute_requirements on a heap of dictionary objects\<close>

text \<open>
  The function above passes dictionaries by value, which hides what the Python does
  with them: \<^verbatim>\<open>FOODS\<close>, \<^verbatim>\<open>BUILDINGS\<close>, their entries and the \<^verbatim>\<open>buildings\<close> argument
  are shared mutable objects, \<^verbatim>\<open>info = BUILDINGS.get(bkey)\<close> and
  \<^verbatim>\<open>food_info = FOODS[food_key]\<close> are aliases of catalog entries, and
  \<^verbatim>\<open>materials[res_key] = ...\<close> is a write into an object. The second model keeps the
  objects in a heap: a dictionary object lives at an address, a dictionary that holds
  another one holds its address, and every statement reads and writes the heap.
  Addresses from \<open>next_addr\<close> on are unused.
\<close>

record heap =
  objs :: "addr \<Rightarrow> pyval pydict"
  next_addr :: addr

text \<open>A dictionary display (\<^verbatim>\<open>{}\<close>) makes a new object at the next unused address.\<close>

definition alloc :: "heap \<Rightarrow> pyval pydict \<Rightarrow> heap \<times> addr" where
  "alloc h d = (h\<lparr> objs := (objs h)(next_addr h := d), next_addr := Suc (next_addr h) \<rparr>,
                next_addr h)"

text \<open>\<^verbatim>\<open>d[k] = v\<close> on the object at address \<open>a\<close>.\<close>

definition setitem :: "heap \<Rightarrow> addr \<Rightarrow> string \<Rightarrow> pyval \<Rightarrow> heap" where
  "setitem h a k v = h\<lparr> objs := (objs h)(a := AList.update k v (objs h a)) \<rparr>"

text \<open>
  \<^verbatim>\<open>x * y\<close> and \<^verbatim>\<open>x + y\<close> on values: integers multiply and add, a string times an
  integer repeats the string, strings concatenate, everything else is a \<^verbatim>\<open>TypeError\<close>.
\<close>

fun py_mul :: "pyval \<Rightarrow> pyval \<Rightarrow> error + pyval" where
  "py_mul (PyInt a) (PyInt b) = Inr (PyInt (a * b))"
| "py_mul (PyStr s) (PyInt n) = Inr (PyStr (concat (replicate (nat n) s)))"
| "py_mul (PyInt n) (PyStr s) = Inr (PyStr (concat (replicate (nat n) s)))"
| "py_mul _ _ = Inl TypeError"

fun py_add :: "pyval \<Rightarrow> pyval \<Rightarrow> error + pyval" where
  "py_add (PyInt a) (PyInt b) = Inr (PyInt (a + b))"
| "py_add (PyStr s) (PyStr t) = Inr (PyStr (s @ t))"
| "py_add _ _ = Inl TypeError"

text \<open>
  \<^verbatim>\<open>v[k]\<close> for a value \<open>v\<close> read from a dictionary: a dictionary is looked up, an
  integer or a string raises \<^verbatim>\<open>TypeError\<close>. \<^verbatim>\<open>not v\<close> holds for 0, for the empty string
  and for an empty dictionary.
\<close>

definition subscript :: "heap \<Rightarrow> pyval \<Rightarrow> string \<Rightarrow> error + pyval" where
  "subscript h v k =
     (case v of
        PyRef a \<Rightarrow> getitem (objs h a) k
      | PyInt i \<Rightarrow> Inl TypeError
      | PyStr s \<Rightarrow> Inl TypeError)"

definition falsy :: "heap \<Rightarrow> pyval \<Rightarrow> bool" where
  "falsy h v =
     (case v of
        PyInt i \<Rightarrow> i = 0
      | PyStr s \<Rightarrow> s = []
      | PyRef a \<Rightarrow> objs h a = [])"

text \<open>
  Importing \<^verbatim>\<open>resources.py\<close> evaluates the three catalog displays in order; each makes
  the objects of its entries and then the catalog itself, which holds their addresses.
  The names \<^verbatim>\<open>FOODS\<close> and \<^verbatim>\<open>BUILDINGS\<close> are bound to the addresses of the second and
  the third catalog; nothing in the program rebinds them.
\<close>

definition catalog_objects :: "addr \<Rightarrow> pyval pydict pydict \<Rightarrow> pyval pydict list" where
  "catalog_objects base catalog =
     map snd catalog @ [map (\<lambda>(i, (k, entry)). (k, PyRef (base + i))) (enumerate 0 catalog)]"

definition module_objects :: "pyval pydict list" where
  "module_objects =
     catalog_objects 0 RESOURCES @ catalog_objects 6 FOODS @ catalog_objects 10 BUILDINGS"

definition FOODS_addr :: addr where
  "FOODS_addr = 9"

definition BUILDINGS_addr :: addr where
  "BUILDINGS_addr = 13"

text \<open>
  The two loops. Each walks the items its dictionary has when the loop starts; the
  only object written while they run is \<^verbatim>\<open>materials\<close>. An entry of \<^verbatim>\<open>BUILDINGS\<close> that
  is truthy but not a dictionary has no \<^verbatim>\<open>.items()\<close>: \<^verbatim>\<open>AttributeError\<close>.
\<close>

fun heap_add_resources ::
    "heap \<Rightarrow> addr \<Rightarrow> pyval pydict \<Rightarrow> pyval \<Rightarrow> error option \<times> heap" where
  "heap_add_resources h materials [] count = (None, h)"
| "heap_add_resources h materials ((res_key, qty) # rest) count =
     (if res_key = ''name'' then heap_add_resources h materials rest count
      else case py_mul qty count of
             Inl e \<Rightarrow> (Some e, h)
           | Inr product \<Rightarrow>
               (case py_add (get_default (objs h materials) res_key (PyInt 0)) product of
                  Inl e \<Rightarrow> (Some e, h)
                | Inr v \<Rightarrow> heap_add_resources (setitem h materials res_key v) materials rest count))"

fun heap_material_totals ::
    "heap \<Rightarrow> addr \<Rightarrow> pyval pydict \<Rightarrow> error option \<times> heap" where
  "heap_material_totals h materials [] = (None, h)"
| "heap_material_totals h materials ((bkey, count) # rest) =
     (case map_of (objs h BUILDINGS_addr) bkey of
        None \<Rightarrow> heap_material_totals h materials rest
      | Some info \<Rightarrow>
          if falsy h info then heap_material_totals h materials rest
          else (case info of
                  PyRef a \<Rightarrow>
                    (case heap_add_resources h materials (objs h a) count of
                       (Some e, h') \<Rightarrow> (Some e, h')
                     | (None, h') \<Rightarrow> heap_material_totals h' materials rest)
                | PyInt i \<Rightarrow> (Some AttributeError, h)
                | PyStr s \<Rightarrow> (Some AttributeError, h)))"

text \<open>
  The function. It returns the exception or the result together with the heap it
  leaves. \<^verbatim>\<open>materials = {}\<close> is the only allocation that the loops see; the result
  refers to that object by its address. The two dictionary displays of the
  \<^verbatim>\<open>return\<close> statement are built from values and handed to the caller; they are the
  record.
\<close>

definition heap_compute_requirements ::
    "heap \<Rightarrow> int \<Rightarrow> int \<Rightarrow> string \<Rightarrow> addr \<Rightarrow> (error + addr requirements) \<times> heap" where
  "heap_compute_requirements h duplicants days food_key buildings =
     (case map_of (objs h FOODS_addr) food_key of
        None \<Rightarrow> (Inl (ValueError (''Unknown food: '' @ food_key)), h)
      | Some food_info \<Rightarrow>
          (case subscript h food_info ''calories'' of
             Inl e \<Rightarrow> (Inl e, h)
           | Inr calories_per_unit \<Rightarrow>
               (let calories_per_duplicant_per_day = 1200;
                    total_calories_needed = duplicants * days * calories_per_duplicant_per_day
                in case py_floordiv total_calories_needed calories_per_unit of
                     Inl e \<Rightarrow> (Inl e, h)
                   | Inr units_floor \<Rightarrow>
                       (case py_mod total_calories_needed calories_per_unit of
                          Inl e \<Rightarrow> (Inl e, h)
                        | Inr left_over \<Rightarrow>
                            (let units_needed =
                                   (if left_over \<noteq> 0 then units_floor + 1 else units_floor);
                                 (h1, materials) = alloc h []
                             in case heap_material_totals h1 materials (objs h1 buildings) of
                                  (Some e, h2) \<Rightarrow> (Inl e, h2)
                                | (None, h2) \<Rightarrow>
                                    (Inr \<lparr> req_duplicants = duplicants,
                                           req_days = days,
                                           req_food =
                                             \<lparr> fd_key = food_key,
                                               fd_units = units_needed,
                                               fd_unit =
                                                 (case food_info of
                                                    PyRef a \<Rightarrow> map_of (objs h2 a) ''unit''
                                                  | _ \<Rightarrow> None) \<rparr>,
                                           req_materials = materials \<rparr>, h2))))))"

section \<open>Notions used to state and prove the properties\<close>

text \<open>
  A catalog entry is usable by the inner loop when every value other than the
  \<^verbatim>\<open>"name"\<close> is an integer.
\<close>

definition int_quantities :: "pyval pydict \<Rightarrow> bool" where
  "int_quantities info =
     list_all (\<lambda>(res_key, qty). res_key = ''name'' \<or> (case qty of PyInt q \<Rightarrow> True | _ \<Rightarrow> False))
       info"

text \<open>
  The quantity of material \<open>k\<close> that one unit of a building needs according to its
  catalog entry, and the sum over a request of quantity times count: the totals the
  loops are expected to accumulate.
\<close>

fun per_unit :: "pyval pydict \<Rightarrow> string \<Rightarrow> int" where
  "per_unit [] k = 0"
| "per_unit ((res_key, qty) # rest) k =
     (if res_key = k \<and> res_key \<noteq> ''name''
      then (case qty of PyInt q \<Rightarrow> q | _ \<Rightarrow> 0) else 0) + per_unit rest k"

fun requested_total :: "int pydict \<Rightarrow> string \<Rightarrow> int" where
  "requested_total [] k = 0"
| "requested_total ((bkey, count) # rest) k =
     (case map_of BUILDINGS bkey of None \<Rightarrow> 0 | Some info \<Rightarrow> per_unit info k * count)
     + requested_total rest k"

text \<open>The material keys of a catalog entry, and those of the known buildings of a request.\<close>

definition material_keys :: "pyval pydict \<Rightarrow> string set" where
  "material_keys info = fst ` set info - {''name''}"

fun requested_keys :: "int pydict \<Rightarrow> string set" where
  "requested_keys [] = {}"
| "requested_keys ((bkey, count) # rest) =
     (case map_of BUILDINGS bkey of None \<Rightarrow> {} | Some info \<Rightarrow> material_keys info)
     \<union> requested_keys rest"

text \<open>
  The dictionary built by the \<^verbatim>\<open>return\<close> statement when the calories per unit are the
  integer \<open>c\<close> and the loops have left \<^verbatim>\<open>materials\<close>.
\<close>

definition food_result ::
    "int \<Rightarrow> int \<Rightarrow> string \<Rightarrow> pyval pydict \<Rightarrow> int \<Rightarrow> 'm \<Rightarrow> 'm requirements" where
  "food_result duplicants days food_key food_info c materials =
     \<lparr> req_duplicants = duplicants, req_days = days,
       req_food = \<lparr> fd_key = food_key,
                    fd_units = (if (duplicants * days * 1200) mod c \<noteq> 0
                                then (duplicants * days * 1200) div c + 1
                                else (duplicants * days * 1200) div c),
                    fd_unit = map_of food_info ''unit'' \<rparr>,
       req_materials = materials \<rparr>"

text \<open>
  Notions for the heap model. A dictionary of integer counts as an object; a heap in
  which the module's objects are as the import left them; overwriting an object; the
  result with its materials mapped; what a caller can read off an outcome (the exception,
  or the result with the contents of its \<^verbatim>\<open>materials\<close> object); the heap right after the
  import, and that heap with the \<^verbatim>\<open>buildings\<close> dictionary of \<^verbatim>\<open>sample_project\<close> added.
\<close>

definition counts_dict :: "int pydict \<Rightarrow> pyval pydict" where
  "counts_dict d = map (\<lambda>(k, c). (k, PyInt c)) d"

definition module_loaded :: "heap \<Rightarrow> bool" where
  "module_loaded h \<longleftrightarrow>
     length module_objects \<le> next_addr h \<and>
     map (objs h) [0..<length module_objects] = module_objects"

definition store :: "heap \<Rightarrow> addr \<Rightarrow> pyval pydict \<Rightarrow> heap" where
  "store h a d = h\<lparr> objs := (objs h)(a := d) \<rparr>"

definition map_materials :: "('a \<Rightarrow> 'b) \<Rightarrow> 'a requirements \<Rightarrow> 'b requirements" where
  "map_materials f r =
     \<lparr> req_duplicants = req_duplicants r, req_days = req_days r, req_food = req_food r,
       req_materials = f (req_materials r) \<rparr>"

definition observe ::
    "(error + addr requirements) \<times> heap \<Rightarrow> error + pyval pydict requirements" where
  "observe outcome =
     (case outcome of
        (Inl e, h) \<Rightarrow> Inl e
      | (Inr r, h) \<Rightarrow> Inr (map_materials (objs h) r))"

definition module_heap :: heap where
  "module_heap =
     \<lparr> objs = (\<lambda>a. if a < length module_objects then module_objects ! a else []),
       next_addr = length module_objects \<rparr>"

definition sample_heap :: heap where
  "sample_heap =
     fst (alloc module_heap [(''simple_bed'', PyInt 3), (''oxygen_generator'', PyInt 1)])"

section \<open>The loops\<close>

lemma FOODS_calories:
  "map_of FOODS food_key = Some food_info \<Longrightarrow>
   \<exists>c. map_of food_info ''calories'' = Some (PyInt c) \<and> c \<in> {120, 400, 1200}"
  by (auto simp: FOODS_def split: if_splits)

lemma BUILDINGS_int_quantities:
  "map_of BUILDINGS bkey = Some info \<Longrightarrow> int_quantities info"
  by (auto simp: BUILDINGS_def int_quantities_def split: if_splits)

lemma add_resources_returns:
  "int_quantities info \<Longrightarrow> \<exists>materials'. add_resources materials info count = Inr materials'"
  by (induction materials info count rule: add_resources.induct)
     (auto simp: int_quantities_def split: pyval.splits)

lemma material_totals_returns:
  "\<exists>materials'. material_totals materials buildings = Inr materials'"
proof (induction materials buildings rule: material_totals.induct)
  case (1 materials)
  then show ?case by simp
next
  case (2 materials bkey count rest)
  show ?case
  proof (cases "map_of BUILDINGS bkey")
    case None
    with 2 show ?thesis by simp
  next
    case (Some info)
    show ?thesis
    proof (cases "info = []")
      case True
      with 2 Some show ?thesis by simp
    next
      case False
      from Some obtain m' where m': "add_resources materials info count = Inr m'"
        using add_resources_returns BUILDINGS_int_quantities by blast
      with 2(3)[OF Some False m'] Some False show ?thesis by simp
    qed
  qed
qed

lemma get_default_update:
  "get_default (AList.update k v d) k' dflt = (if k' = k then v else get_default d k' dflt)"
  by (simp add: get_default_def update_conv')

lemma add_resources_get:
  "add_resources materials info count = Inr materials' \<Longrightarrow>
   get_default materials' k 0 = get_default materials k 0 + per_unit info k * count"
proof (induction materials info count arbitrary: materials' rule: add_resources.induct)
  case (1 materials count)
  then show ?case by simp
next
  case (2 materials res_key qty rest count)
  show ?case
  proof (cases "res_key = ''name''")
    case True
    with 2 show ?thesis by simp
  next
    case False
    with "2.prems" obtain q where q: "qty = PyInt q"
      by (cases qty) auto
    let ?m = "AList.update res_key (get_default materials res_key 0 + q * count) materials"
    from "2.prems" False q have "add_resources ?m rest count = Inr materials'"
      by simp
    from "2.IH"(2)[OF False q this]
    have "get_default materials' k 0 = get_default ?m k 0 + per_unit rest k * count" .
    with False q show ?thesis
      by (simp add: get_default_update algebra_simps)
  qed
qed

lemma add_resources_keys:
  "add_resources materials info count = Inr materials' \<Longrightarrow>
   fst ` set materials' = fst ` set materials \<union> material_keys info"
proof (induction materials info count arbitrary: materials' rule: add_resources.induct)
  case (1 materials count)
  then show ?case by (simp add: material_keys_def)
next
  case (2 materials res_key qty rest count)
  show ?case
  proof (cases "res_key = ''name''")
    case True
    with 2 show ?thesis by (auto simp: material_keys_def)
  next
    case False
    with "2.prems" obtain q where q: "qty = PyInt q"
      by (cases qty) auto
    let ?m = "AList.update res_key (get_default materials res_key 0 + q * count) materials"
    from "2.prems" False q have "add_resources ?m rest count = Inr materials'"
      by simp
    from "2.IH"(2)[OF False q this]
    have "fst ` set materials' = fst ` set ?m \<union> material_keys rest" .
    with False show ?thesis
      by (auto simp: dom_update material_keys_def)
  qed
qed

lemma material_totals_get:
  "material_totals materials buildings = Inr materials' \<Longrightarrow>
   get_default materials' k 0 = get_default materials k 0 + requested_total buildings k"
proof (induction materials buildings arbitrary: materials' rule: material_totals.induct)
  case (1 materials)
  then show ?case by simp
next
  case (2 materials bkey count rest)
  show ?case
  proof (cases "map_of BUILDINGS bkey")
    case None
    with 2 show ?thesis by simp
  next
    case (Some info)
    show ?thesis
    proof (cases "info = []")
      case True
      with 2 Some show ?thesis by simp
    next
      case False
      from "2.prems" Some False obtain m' where
        m': "add_resources materials info count = Inr m'" and
        rest: "material_totals m' rest = Inr materials'"
        by (auto split: sum.splits)
      from "2.IH"(3)[OF Some False m' rest] add_resources_get[OF m', of k] Some
      show ?thesis by simp
    qed
  qed
qed

lemma material_totals_keys:
  "material_totals materials buildings = Inr materials' \<Longrightarrow>
   fst ` set materials' = fst ` set materials \<union> requested_keys buildings"
proof (induction materials buildings arbitrary: materials' rule: material_totals.induct)
  case (1 materials)
  then show ?case by simp
next
  case (2 materials bkey count rest)
  show ?case
  proof (cases "map_of BUILDINGS bkey")
    case None
    with 2 show ?thesis by simp
  next
    case (Some info)
    show ?thesis
    proof (cases "info = []")
      case True
      with 2 Some show ?thesis by (simp add: material_keys_def)
    next
      case False
      from "2.prems" Some False obtain m' where
        m': "add_resources materials info count = Inr m'" and
        rest: "material_totals m' rest = Inr materials'"
        by (auto split: sum.splits)
      from "2.IH"(3)[OF Some False m' rest] add_resources_keys[OF m'] Some
      show ?thesis by auto
    qed
  qed
qed

lemma material_totals_filter:
  "material_totals materials (filter (\<lambda>(k, c). k \<in> fst ` set BUILDINGS) buildings) =
     material_totals materials buildings"
proof (induction materials buildings rule: material_totals.induct)
  case (1 materials)
  then show ?case by simp
next
  case (2 materials bkey count rest)
  show ?case
  proof (cases "map_of BUILDINGS bkey")
    case None
    then have "bkey \<notin> fst ` set BUILDINGS" by (simp add: map_of_eq_None_iff)
    with "2.IH"(1)[OF None] None show ?thesis by simp
  next
    case (Some info)
    then have known: "bkey \<in> fst ` set BUILDINGS"
      by (metis map_of_eq_None_iff option.distinct(1))
    show ?thesis
    proof (cases "info = []")
      case True
      with "2.IH"(2)[OF Some True] Some known show ?thesis by simp
    next
      case False
      show ?thesis
      proof (cases "add_resources materials info count")
        case (Inl e)
        with Some False known show ?thesis by simp
      next
        case (Inr materials')
        with "2.IH"(3)[OF Some False Inr] Some False known show ?thesis by simp
      qed
    qed
  qed
qed

lemma material_totals_append:
  "material_totals materials (xs @ ys) =
     (case material_totals materials xs of
        Inl e \<Rightarrow> Inl e
      | Inr materials' \<Rightarrow> material_totals materials' ys)"
  by (induction materials xs rule: material_totals.induct) (auto split: option.splits sum.splits)

section \<open>The function as a whole\<close>


lemma compute_requirements_value:
  assumes "map_of FOODS food_key = Some food_info"
    and "map_of food_info ''calories'' = Some (PyInt c)" and "c \<noteq> 0"
    and "material_totals [] buildings = Inr materials"
  shows "compute_requirements duplicants days food_key buildings =
           Inr (food_result duplicants days food_key food_info c materials)"
  using assms
  by (simp add: compute_requirements_def getitem_def py_floordiv_def py_mod_def Let_def
      food_result_def)

lemma compute_requirements_known:
  assumes "map_of FOODS food_key = Some food_info"
  shows "\<exists>c materials.
           map_of food_info ''calories'' = Some (PyInt c) \<and> c \<in> {120, 400, 1200} \<and>
           material_totals [] buildings = Inr materials \<and>
           compute_requirements duplicants days food_key buildings =
             Inr \<lparr> req_duplicants = duplicants, req_days = days,
                   req_food = \<lparr> fd_key = food_key,
                                fd_units = (if (duplicants * days * 1200) mod c \<noteq> 0
                                            then (duplicants * days * 1200) div c + 1
                                            else (duplicants * days * 1200) div c),
                                fd_unit = map_of food_info ''unit'' \<rparr>,
                   req_materials = materials \<rparr>"
proof -
  from FOODS_calories[OF assms] obtain c where
    c: "map_of food_info ''calories'' = Some (PyInt c)" "c \<in> {120, 400, 1200}" by blast
  from material_totals_returns obtain materials where
    m: "material_totals [] buildings = Inr materials" by blast
  from c(2) have "c \<noteq> 0" by auto
  with assms c m have "compute_requirements duplicants days food_key buildings =
             Inr \<lparr> req_duplicants = duplicants, req_days = days,
                   req_food = \<lparr> fd_key = food_key,
                                fd_units = (if (duplicants * days * 1200) mod c \<noteq> 0
                                            then (duplicants * days * 1200) div c + 1
                                            else (duplicants * days * 1200) div c),
                                fd_unit = map_of food_info ''unit'' \<rparr>,
                   req_materials = materials \<rparr>"
    by (simp add: compute_requirements_def getitem_def py_floordiv_def py_mod_def Let_def)
  with c m show ?thesis by blast
qed

lemma compute_requirements_unknown:
  "map_of FOODS food_key = None \<Longrightarrow>
   compute_requirements duplicants days food_key buildings =
     Inl (ValueError (''Unknown food: '' @ food_key))"
  by (simp add: compute_requirements_def)



lemma in_FOODS_iff:
  "food_key \<in> fst ` set FOODS \<longleftrightarrow> (\<exists>food_info. map_of FOODS food_key = Some food_info)"
  by (metis map_of_eq_None_iff not_Some_eq)

text \<open>
  C2. The call raises exactly when the food key is not a key of \<^verbatim>\<open>FOODS\<close>, whatever
  the other arguments are. The exception is the one of the first statement of the function
  (a \<^verbatim>\<open>ValueError\<close> with the message \<^verbatim>\<open>"Unknown food: " + str(food_key)\<close>) and
  stands in place of the whole result. For a key of the catalog the call returns a result
  carrying the request's duplicants, days and food key, for every mapping of building
  counts: none of the \<^verbatim>\<open>KeyError\<close>, \<^verbatim>\<open>ZeroDivisionError\<close> and \<^verbatim>\<open>TypeError\<close>
  branches is taken on the shipped catalogs.
\<close>

theorem unknown_food_is_the_only_error:
  "(food_key \<notin> fst ` set FOODS \<longrightarrow>
      compute_requirements duplicants days food_key buildings =
        Inl (ValueError (''Unknown food: '' @ food_key))) \<and>
   (food_key \<in> fst ` set FOODS \<longrightarrow>
      (\<exists>r. compute_requirements duplicants days food_key buildings = Inr r \<and>
           req_duplicants r = duplicants \<and> req_days r = days \<and>
           fd_key (req_food r) = food_key))"
proof (intro conjI impI)
  assume "food_key \<notin> fst ` set FOODS"
  then have "map_of FOODS food_key = None" by (simp add: map_of_eq_None_iff)
  then show "compute_requirements duplicants days food_key buildings =
        Inl (ValueError (''Unknown food: '' @ food_key))"
    by (rule compute_requirements_unknown)
next
  assume "food_key \<in> fst ` set FOODS"
  then obtain food_info where "map_of FOODS food_key = Some food_info"
    by (auto simp: in_FOODS_iff)
  from compute_requirements_known[OF this, of buildings duplicants days]
  show "\<exists>r. compute_requirements duplicants days food_key buildings = Inr r \<and>
           req_duplicants r = duplicants \<and> req_days r = days \<and>
           fd_key (req_food r) = food_key"
    by auto
qed

theorem unknown_food_is_the_only_error_witness:
  "compute_requirements 2 5 ''does_not_exist'' [(''simple_bed'', 1)] =
     Inl (ValueError ''Unknown food: does_not_exist'') \<and>
   (\<exists>r. compute_requirements 0 0 ''mushroom'' [(''no_such_building'', 4), (''water_pump'', 0)] = Inr r \<and>
        req_duplicants r = 0 \<and> req_days r = 0 \<and> fd_key (req_food r) = ''mushroom'')"
proof -
  have a: "''does_not_exist'' \<notin> fst ` set FOODS" by (simp add: FOODS_def)
  have b: "''mushroom'' \<in> fst ` set FOODS" by (simp add: FOODS_def)
  from a unknown_food_is_the_only_error[of "''does_not_exist''" 2 5 "[(''simple_bed'', 1)]"]
       b unknown_food_is_the_only_error[of "''mushroom''" 0 0
           "[(''no_such_building'', 4), (''water_pump'', 0)]"]
  show ?thesis by simp
qed

text \<open>
  C3. A building key that is not in \<^verbatim>\<open>BUILDINGS\<close> is skipped: wherever it stands in the
  request and whatever its count, the call returns what it returns for the request
  without that entry (the same error or the same result, with the same material keys in
  the same order). With a food key of the catalog the call does not raise, and a request
  of that building alone has empty material totals. Dropping all unknown keys of a
  request at once does not change what the call returns either.
\<close>

theorem unknown_building_skipped:
  assumes "bkey \<notin> fst ` set BUILDINGS"
  shows "compute_requirements duplicants days food_key (before @ (bkey, count) # after) =
           compute_requirements duplicants days food_key (before @ after) \<and>
         (food_key \<in> fst ` set FOODS \<longrightarrow>
            (\<exists>r. compute_requirements duplicants days food_key (before @ (bkey, count) # after)
                   = Inr r) \<and>
            (\<exists>r. compute_requirements duplicants days food_key [(bkey, count)] = Inr r \<and>
                 req_materials r = [])) \<and>
         compute_requirements duplicants days food_key
             (filter (\<lambda>(k, c). k \<in> fst ` set BUILDINGS) buildings) =
           compute_requirements duplicants days food_key buildings"
proof -
  have known: "compute_requirements duplicants days food_key
             (filter (\<lambda>(k, c). k \<in> fst ` set BUILDINGS) buildings) =
           compute_requirements duplicants days food_key buildings"
    unfolding compute_requirements_def material_totals_filter ..
  from assms have none: "map_of BUILDINGS bkey = None" by (simp add: map_of_eq_None_iff)
  have skip: "material_totals materials (xs @ (bkey, count) # ys) = material_totals materials (xs @ ys)"
    for materials xs ys
    by (simp add: material_totals_append none split: sum.splits)
  have eq: "compute_requirements duplicants days food_key (before @ (bkey, count) # after) =
           compute_requirements duplicants days food_key (before @ after)"
    unfolding compute_requirements_def skip ..
  moreover have "\<exists>r. compute_requirements duplicants days food_key (before @ (bkey, count) # after)
                   = Inr r" if "food_key \<in> fst ` set FOODS"
  proof -
    from that obtain food_info where "map_of FOODS food_key = Some food_info"
      by (auto simp: in_FOODS_iff)
    from compute_requirements_known[OF this] show ?thesis by blast
  qed
  moreover have "\<exists>r. compute_requirements duplicants days food_key [(bkey, count)] = Inr r \<and>
                 req_materials r = []" if "food_key \<in> fst ` set FOODS"
  proof -
    from that obtain food_info where "map_of FOODS food_key = Some food_info"
      by (auto simp: in_FOODS_iff)
    from compute_requirements_known[OF this, of "[(bkey, count)]" duplicants days] none
    show ?thesis by auto
  qed
  ultimately show ?thesis using known by blast
qed

theorem unknown_building_skipped_witness:
  "compute_requirements 3 7 ''basic_meal''
       ([(''simple_bed'', 3)] @ (''rocket'', 5) # [(''oxygen_generator'', 1)]) =
     Inr \<lparr> req_duplicants = 3, req_days = 7,
           req_food = \<lparr> fd_key = ''basic_meal'', fd_units = 21,
                        fd_unit = Some (PyStr ''plate'') \<rparr>,
           req_materials = [(''iron_ore'', 110), (''algae'', 10)] \<rparr> \<and>
   (\<exists>r. compute_requirements 3 7 ''basic_meal'' [(''rocket'', 5)] = Inr r \<and> req_materials r = []) \<and>
   compute_requirements 3 7 ''basic_meal''
       (filter (\<lambda>(k, c). k \<in> fst ` set BUILDINGS)
          [(''rocket'', 5), (''simple_bed'', 3), (''lab'', 2), (''oxygen_generator'', 1)]) =
     compute_requirements 3 7 ''basic_meal''
       [(''rocket'', 5), (''simple_bed'', 3), (''lab'', 2), (''oxygen_generator'', 1)]"
proof -
  have u: "''rocket'' \<notin> fst ` set BUILDINGS" by (simp add: BUILDINGS_def)
  have f: "''basic_meal'' \<in> fst ` set FOODS" by (simp add: FOODS_def)
  have "compute_requirements 3 7 ''basic_meal'' ([(''simple_bed'', 3)] @ [(''oxygen_generator'', 1)]) =
     Inr \<lparr> req_duplicants = 3, req_days = 7,
           req_food = \<lparr> fd_key = ''basic_meal'', fd_units = 21,
                        fd_unit = Some (PyStr ''plate'') \<rparr>,
           req_materials = [(''iron_ore'', 110), (''algae'', 10)] \<rparr>"
    by (simp add: compute_requirements_def FOODS_def BUILDINGS_def getitem_def get_default_def
      py_floordiv_def py_mod_def)
  with f unknown_building_skipped[OF u, of 3 7 "''basic_meal''" "[(''simple_bed'', 3)]" 5
        "[(''oxygen_generator'', 1)]"
        "[(''rocket'', 5), (''simple_bed'', 3), (''lab'', 2), (''oxygen_generator'', 1)]"]
  show ?thesis by simp
qed

lemma compute_requirements_materials:
  assumes "food_key \<in> fst ` set FOODS"
  shows "\<exists>r. compute_requirements duplicants days food_key buildings = Inr r \<and>
             material_totals [] buildings = Inr (req_materials r)"
proof -
  from assms obtain food_info where "map_of FOODS food_key = Some food_info"
    by (auto simp: in_FOODS_iff)
  from compute_requirements_known[OF this, of buildings duplicants days]
  show ?thesis by auto
qed

lemma compute_requirements_InrD:
  assumes "compute_requirements duplicants days food_key buildings = Inr r"
  shows "material_totals [] buildings = Inr (req_materials r)"
proof (cases "map_of FOODS food_key")
  case None
  from compute_requirements_unknown[OF this, of duplicants days buildings] assms
  show ?thesis by simp
next
  case (Some food_info)
  from compute_requirements_known[OF this, of buildings duplicants days] assms
  show ?thesis by auto
qed

text \<open>
  C4. For a building key \<open>A\<close> and non-negative counts \<open>m\<close> and \<open>n\<close>, the totals of
  the request \<open>{A: m + n}\<close> are the per-material sum of the totals of \<open>{A: m}\<close> and of
  \<open>{A: n}\<close>: the key set is the union of the two key sets, and every material's
  quantity (0 for an absent key) is the sum of the two quantities.
\<close>

theorem material_totals_additive:
  assumes "0 \<le> m" and "0 \<le> n" and "food_key \<in> fst ` set FOODS"
  shows "\<exists>r1 r2 r3.
           compute_requirements duplicants days food_key [(A, m)] = Inr r1 \<and>
           compute_requirements duplicants days food_key [(A, n)] = Inr r2 \<and>
           compute_requirements duplicants days food_key [(A, m + n)] = Inr r3 \<and>
           fst ` set (req_materials r3) =
             fst ` set (req_materials r1) \<union> fst ` set (req_materials r2) \<and>
           (\<forall>k. get_default (req_materials r3) k 0 =
                  get_default (req_materials r1) k 0 + get_default (req_materials r2) k 0)"
proof -
  from compute_requirements_materials[OF assms(3), of duplicants days "[(A, m)]"]
  obtain r1 where
    r1: "compute_requirements duplicants days food_key [(A, m)] = Inr r1"
        "material_totals [] [(A, m)] = Inr (req_materials r1)"
    by blast
  from compute_requirements_materials[OF assms(3), of duplicants days "[(A, n)]"]
  obtain r2 where
    r2: "compute_requirements duplicants days food_key [(A, n)] = Inr r2"
        "material_totals [] [(A, n)] = Inr (req_materials r2)"
    by blast
  from compute_requirements_materials[OF assms(3), of duplicants days "[(A, m + n)]"]
  obtain r3 where
    r3: "compute_requirements duplicants days food_key [(A, m + n)] = Inr r3"
        "material_totals [] [(A, m + n)] = Inr (req_materials r3)"
    by blast
  have keys: "fst ` set (req_materials r3) =
             fst ` set (req_materials r1) \<union> fst ` set (req_materials r2)"
    using material_totals_keys[OF r1(2)] material_totals_keys[OF r2(2)]
      material_totals_keys[OF r3(2)] by simp
  have vals: "get_default (req_materials r3) k 0 =
                  get_default (req_materials r1) k 0 + get_default (req_materials r2) k 0" for k
    using material_totals_get[OF r1(2), of k] material_totals_get[OF r2(2), of k]
      material_totals_get[OF r3(2), of k]
    by (simp add: get_default_def algebra_simps split: option.splits)
  from r1(1) r2(1) r3(1) keys vals show ?thesis by blast
qed

theorem material_totals_additive_witness:
  "\<exists>r1 r2 r3.
     compute_requirements 1 1 ''mushroom'' [(''oxygen_generator'', 2)] = Inr r1 \<and>
     compute_requirements 1 1 ''mushroom'' [(''oxygen_generator'', 3)] = Inr r2 \<and>
     compute_requirements 1 1 ''mushroom'' [(''oxygen_generator'', 5)] = Inr r3 \<and>
     req_materials r1 = [(''iron_ore'', 100), (''algae'', 20)] \<and>
     req_materials r2 = [(''iron_ore'', 150), (''algae'', 30)] \<and>
     req_materials r3 = [(''iron_ore'', 250), (''algae'', 50)] \<and>
     get_default (req_materials r3) ''iron_ore'' 0 =
       get_default (req_materials r1) ''iron_ore'' 0 + get_default (req_materials r2) ''iron_ore'' 0"
proof -
  have f: "''mushroom'' \<in> fst ` set FOODS" by (simp add: FOODS_def)
  have m: "(0::int) \<le> 2" and n: "(0::int) \<le> 3" by simp_all
  from material_totals_additive[OF m n f, of 1 1 "''oxygen_generator''"]
  obtain r1 r2 r3 where
    r: "compute_requirements 1 1 ''mushroom'' [(''oxygen_generator'', 2)] = Inr r1"
       "compute_requirements 1 1 ''mushroom'' [(''oxygen_generator'', 3)] = Inr r2"
       "compute_requirements 1 1 ''mushroom'' [(''oxygen_generator'', 2 + 3)] = Inr r3" and
    s: "\<forall>k. get_default (req_materials r3) k 0 =
                  get_default (req_materials r1) k 0 + get_default (req_materials r2) k 0"
    by auto
  have e: "material_totals [] [(''oxygen_generator'', 2)] = Inr [(''iron_ore'', 100), (''algae'', 20)]"
       "material_totals [] [(''oxygen_generator'', 3)] = Inr [(''iron_ore'', 150), (''algae'', 30)]"
       "material_totals [] [(''oxygen_generator'', 5)] = Inr [(''iron_ore'', 250), (''algae'', 50)]"
    by (simp_all add: BUILDINGS_def get_default_def)
  from r e have "req_materials r1 = [(''iron_ore'', 100), (''algae'', 20)]"
     "req_materials r2 = [(''iron_ore'', 150), (''algae'', 30)]"
     "req_materials r3 = [(''iron_ore'', 250), (''algae'', 50)]"
    by (auto dest!: compute_requirements_InrD)
  with r s show ?thesis by simp
qed

section \<open>Counts of zero\<close>

text \<open>
  C5, as stated, fails: the request \<^verbatim>\<open>{"simple_bed": 0}\<close> yields the totals
  \<^verbatim>\<open>{"iron_ore": 0}\<close>, an entry for a material whose total is zero, and so differs from
  the result of the request without that building, whose totals are empty.
\<close>

theorem zero_count_entry_counterexample:
  "compute_requirements 1 1 ''basic_meal'' [(''simple_bed'', 0)] =
     Inr \<lparr> req_duplicants = 1, req_days = 1,
           req_food = \<lparr> fd_key = ''basic_meal'', fd_units = 1,
                        fd_unit = Some (PyStr ''plate'') \<rparr>,
           req_materials = [(''iron_ore'', 0)] \<rparr> \<and>
   compute_requirements 1 1 ''basic_meal'' [] =
     Inr \<lparr> req_duplicants = 1, req_days = 1,
           req_food = \<lparr> fd_key = ''basic_meal'', fd_units = 1,
                        fd_unit = Some (PyStr ''plate'') \<rparr>,
           req_materials = [] \<rparr> \<and>
   compute_requirements 1 1 ''basic_meal'' [(''simple_bed'', 0)] \<noteq>
     compute_requirements 1 1 ''basic_meal'' []"
  by (simp add: compute_requirements_def FOODS_def BUILDINGS_def getitem_def get_default_def
      py_floordiv_def py_mod_def)

lemma requested_total_append:
  "requested_total (xs @ ys) k = requested_total xs k + requested_total ys k"
  by (induction xs k rule: requested_total.induct) simp_all

lemma requested_keys_append:
  "requested_keys (xs @ ys) = requested_keys xs \<union> requested_keys ys"
  by (induction xs rule: requested_keys.induct) auto

lemma requested_keys_iff:
  "k \<in> requested_keys buildings \<longleftrightarrow>
     (\<exists>bkey info. bkey \<in> fst ` set buildings \<and> map_of BUILDINGS bkey = Some info \<and>
        k \<in> fst ` set info \<and> k \<noteq> ''name'')"
proof (induction buildings rule: requested_keys.induct)
  case 1
  then show ?case by simp
next
  case (2 bkey count rest)
  show ?case
  proof (cases "map_of BUILDINGS bkey")
    case None
    with 2 show ?thesis by auto
  next
    case (Some info)
    with 2 show ?thesis by (auto simp: material_keys_def)
  qed
qed

text \<open>
  C5, as the code has it. The loops have no test on the count, so a building requested
  with count 0 still runs the inner loop and assigns \<open>qty * 0\<close> to each of its materials.
  For a food key of the catalog, removing such a building from the request leaves the
  food part of the result and every material's quantity (0 for an absent key) unchanged,
  and can only remove keys from the totals; the totals have an entry exactly for the keys
  other than \<^verbatim>\<open>"name"\<close> of the catalog entries of the requested buildings, whatever their
  counts.
\<close>

theorem zero_count_contributes_zero:
  assumes "food_key \<in> fst ` set FOODS"
  shows "\<exists>r r'.
           compute_requirements duplicants days food_key (before @ (bkey, 0) # after) = Inr r \<and>
           compute_requirements duplicants days food_key (before @ after) = Inr r' \<and>
           req_food r = req_food r' \<and>
           (\<forall>k. get_default (req_materials r) k 0 = get_default (req_materials r') k 0) \<and>
           fst ` set (req_materials r') \<subseteq> fst ` set (req_materials r) \<and>
           (\<forall>k. k \<in> fst ` set (req_materials r) \<longleftrightarrow>
              (\<exists>b info. b \<in> fst ` set (before @ (bkey, 0) # after) \<and>
                 map_of BUILDINGS b = Some info \<and> k \<in> fst ` set info \<and> k \<noteq> ''name''))"
proof -
  let ?with = "before @ (bkey, 0) # after" and ?without = "before @ after"
  from assms obtain food_info where fi: "map_of FOODS food_key = Some food_info"
    by (auto simp: in_FOODS_iff)
  from FOODS_calories[OF fi] obtain c where
    c: "map_of food_info ''calories'' = Some (PyInt c)" "c \<in> {120, 400, 1200}" by blast
  then have c0: "c \<noteq> 0" by auto
  from material_totals_returns obtain m where m: "material_totals [] ?with = Inr m" by blast
  from material_totals_returns obtain m' where m': "material_totals [] ?without = Inr m'" by blast
  define r where "r = food_result duplicants days food_key food_info c m"
  define r' where "r' = food_result duplicants days food_key food_info c m'"
  have r: "compute_requirements duplicants days food_key ?with = Inr r"
    unfolding r_def by (rule compute_requirements_value[OF fi c(1) c0 m])
  have r': "compute_requirements duplicants days food_key ?without = Inr r'"
    unfolding r'_def by (rule compute_requirements_value[OF fi c(1) c0 m'])
  have mr: "material_totals [] ?with = Inr (req_materials r)"
    using m by (simp add: r_def food_result_def)
  have mr': "material_totals [] ?without = Inr (req_materials r')"
    using m' by (simp add: r'_def food_result_def)
  have fr: "req_food r = req_food r'" by (simp add: r_def r'_def food_result_def)
  note food = fr
  have vals: "get_default (req_materials r) k 0 = get_default (req_materials r') k 0" for k
    using material_totals_get[OF mr, of k] material_totals_get[OF mr', of k]
    by (simp add: requested_total_append split: option.splits)
  have keys: "fst ` set (req_materials r') \<subseteq> fst ` set (req_materials r)"
    using material_totals_keys[OF mr] material_totals_keys[OF mr']
    by (auto simp: requested_keys_append)
  have present: "k \<in> fst ` set (req_materials r) \<longleftrightarrow>
              (\<exists>b info. b \<in> fst ` set ?with \<and>
                 map_of BUILDINGS b = Some info \<and> k \<in> fst ` set info \<and> k \<noteq> ''name'')" for k
    using material_totals_keys[OF mr] requested_keys_iff[of k ?with] by simp
  from r r' food vals keys present show ?thesis by blast
qed

theorem zero_count_contributes_zero_witness:
  "\<exists>r r'.
     compute_requirements 2 3 ''mushroom'' ([] @ (''simple_bed'', 0) # []) = Inr r \<and>
     compute_requirements 2 3 ''mushroom'' ([] @ []) = Inr r' \<and>
     req_materials r = [(''iron_ore'', 0)] \<and>
     req_materials r' = [] \<and>
     req_food r = req_food r' \<and>
     get_default (req_materials r) ''iron_ore'' 0 = get_default (req_materials r') ''iron_ore'' 0 \<and>
     fst ` set (req_materials r') \<subseteq> fst ` set (req_materials r)"
proof -
  have f: "''mushroom'' \<in> fst ` set FOODS" by (simp add: FOODS_def)
  from zero_count_contributes_zero[OF f, of 2 3 "[]" "''simple_bed''" "[]"]
  obtain r r' where
    r: "compute_requirements 2 3 ''mushroom'' ([] @ (''simple_bed'', 0) # []) = Inr r"
       "compute_requirements 2 3 ''mushroom'' ([] @ []) = Inr r'"
       "req_food r = req_food r'"
       "\<forall>k. get_default (req_materials r) k 0 = get_default (req_materials r') k 0"
       "fst ` set (req_materials r') \<subseteq> fst ` set (req_materials r)"
    by auto
  have e: "material_totals [] ([] @ (''simple_bed'', 0) # []) = Inr [(''iron_ore'', 0)]"
          "material_totals [] ([] @ []) = Inr []"
    by (simp_all add: BUILDINGS_def get_default_def)
  from r(1,2) e have "req_materials r = [(''iron_ore'', 0)]" "req_materials r' = []"
    by (auto dest!: compute_requirements_InrD)
  with r show ?thesis by simp
qed

section \<open>Food and materials are independent\<close>

text \<open>
  C6. With a food key of the catalog and zero duplicants or zero days the call returns
  0 units of food, and its material totals are those of every call with the same
  building counts, whatever the duplicants, the days and the (known) food key are.
\<close>

theorem zero_duplicants_or_days:
  assumes "food_key \<in> fst ` set FOODS" and "duplicants = 0 \<or> days = 0"
  shows "\<exists>r. compute_requirements duplicants days food_key buildings = Inr r \<and>
             fd_units (req_food r) = 0 \<and>
             (\<forall>duplicants' days' food_key'. food_key' \<in> fst ` set FOODS \<longrightarrow>
                (\<exists>r'. compute_requirements duplicants' days' food_key' buildings = Inr r' \<and>
                      req_materials r' = req_materials r))"
proof -
  from assms(1) obtain food_info where fi: "map_of FOODS food_key = Some food_info"
    by (auto simp: in_FOODS_iff)
  from FOODS_calories[OF fi] obtain c where
    c: "map_of food_info ''calories'' = Some (PyInt c)" "c \<in> {120, 400, 1200}" by blast
  then have c0: "c \<noteq> 0" by auto
  from material_totals_returns obtain m where m: "material_totals [] buildings = Inr m" by blast
  define r where "r = food_result duplicants days food_key food_info c m"
  have r: "compute_requirements duplicants days food_key buildings = Inr r"
    unfolding r_def by (rule compute_requirements_value[OF fi c(1) c0 m])
  have total: "duplicants * days * 1200 = 0" using assms(2) by auto
  have units: "fd_units (req_food r) = 0"
    unfolding r_def food_result_def total by simp
  have other: "\<exists>r'. compute_requirements duplicants' days' food_key' buildings = Inr r' \<and>
                      req_materials r' = req_materials r"
    if "food_key' \<in> fst ` set FOODS" for duplicants' days' food_key'
  proof -
    from compute_requirements_materials[OF that, of duplicants' days' buildings]
    obtain r' where "compute_requirements duplicants' days' food_key' buildings = Inr r'"
      "material_totals [] buildings = Inr (req_materials r')" by blast
    with m show ?thesis by (simp add: r_def food_result_def)
  qed
  from r units other show ?thesis by blast
qed

theorem zero_duplicants_or_days_witness:
  "\<exists>r. compute_requirements 0 7 ''basic_meal'' [(''simple_bed'', 3), (''oxygen_generator'', 1)]
          = Inr r \<and>
       fd_units (req_food r) = 0 \<and>
       req_materials r = [(''iron_ore'', 110), (''algae'', 10)] \<and>
       (\<exists>r'. compute_requirements 4 9 ''mushroom''
                [(''simple_bed'', 3), (''oxygen_generator'', 1)] = Inr r' \<and>
             req_materials r' = req_materials r)"
proof -
  have f: "''basic_meal'' \<in> fst ` set FOODS" by (simp add: FOODS_def)
  have z: "(0::int) = 0 \<or> (7::int) = 0" by simp
  from zero_duplicants_or_days[OF f z, of "[(''simple_bed'', 3), (''oxygen_generator'', 1)]"]
  obtain r where
    r: "compute_requirements 0 7 ''basic_meal'' [(''simple_bed'', 3), (''oxygen_generator'', 1)]
          = Inr r" "fd_units (req_food r) = 0"
       "\<forall>duplicants' days' food_key'. food_key' \<in> fst ` set FOODS \<longrightarrow>
          (\<exists>r'. compute_requirements duplicants' days' food_key'
                  [(''simple_bed'', 3), (''oxygen_generator'', 1)] = Inr r' \<and>
                req_materials r' = req_materials r)"
    by auto
  have "material_totals [] [(''simple_bed'', 3), (''oxygen_generator'', 1)] =
          Inr [(''iron_ore'', 110), (''algae'', 10)]"
    by (simp add: BUILDINGS_def get_default_def)
  with r(1) have m: "req_materials r = [(''iron_ore'', 110), (''algae'', 10)]"
    by (auto dest!: compute_requirements_InrD)
  have "''mushroom'' \<in> fst ` set FOODS" by (simp add: FOODS_def)
  with r(3) have "\<exists>r'. compute_requirements 4 9 ''mushroom''
                [(''simple_bed'', 3), (''oxygen_generator'', 1)] = Inr r' \<and>
             req_materials r' = req_materials r" by simp
  with r(1,2) m show ?thesis by simp
qed

section \<open>Calories of the shipped foods\<close>

text \<open>
  C9. Every entry of the shipped \<^verbatim>\<open>FOODS\<close> has an integer \<^verbatim>\<open>"calories"\<close> value, one of
  120, 400 and 1200, hence positive; floor division and remainder by it return, and no
  call of the function ends in \<^verbatim>\<open>ZeroDivisionError\<close>.
\<close>

theorem calories_positive_no_division_by_zero:
  "(\<forall>food_info. map_of FOODS food_key = Some food_info \<longrightarrow>
      (\<exists>c. getitem food_info ''calories'' = Inr (PyInt c) \<and> c \<in> {120, 400, 1200} \<and> 0 < c \<and>
           py_floordiv calories_needed (PyInt c) = Inr (calories_needed div c) \<and>
           py_mod calories_needed (PyInt c) = Inr (calories_needed mod c))) \<and>
   compute_requirements duplicants days food_key buildings \<noteq> Inl ZeroDivisionError"
proof (intro conjI allI impI)
  fix food_info
  assume "map_of FOODS food_key = Some food_info"
  from FOODS_calories[OF this] obtain c where
    c: "map_of food_info ''calories'' = Some (PyInt c)" "c \<in> {120, 400, 1200}" by blast
  from c(2) have "0 < c" by auto
  with c show "\<exists>c. getitem food_info ''calories'' = Inr (PyInt c) \<and> c \<in> {120, 400, 1200} \<and> 0 < c \<and>
           py_floordiv calories_needed (PyInt c) = Inr (calories_needed div c) \<and>
           py_mod calories_needed (PyInt c) = Inr (calories_needed mod c)"
    by (intro exI[of _ c]) (simp add: getitem_def py_floordiv_def py_mod_def)
next
  show "compute_requirements duplicants days food_key buildings \<noteq> Inl ZeroDivisionError"
  proof (cases "map_of FOODS food_key")
    case None
    from compute_requirements_unknown[OF this, of duplicants days buildings]
    show ?thesis by simp
  next
    case (Some food_info)
    from compute_requirements_known[OF this, of buildings duplicants days]
    show ?thesis by auto
  qed
qed

theorem calories_positive_no_division_by_zero_witness:
  "(\<exists>c. getitem [(''name'', PyStr ''Mushroom''), (''calories'', PyInt 120),
                   (''unit'', PyStr ''kg''), (''desc'', PyStr ''Raw food'')] ''calories''
          = Inr (PyInt c) \<and> c = 120 \<and>
        py_floordiv 1000 (PyInt c) = Inr 8 \<and> py_mod 1000 (PyInt c) = Inr 40) \<and>
   compute_requirements 1 1 ''mushroom'' [] \<noteq> Inl ZeroDivisionError"
proof -
  have k: "map_of FOODS ''mushroom'' =
      Some [(''name'', PyStr ''Mushroom''), (''calories'', PyInt 120),
            (''unit'', PyStr ''kg''), (''desc'', PyStr ''Raw food'')]"
    by (simp add: FOODS_def)
  from calories_positive_no_division_by_zero[of "''mushroom''" 1000 1 1 "[]"] k
  show ?thesis by (auto simp: getitem_def)
qed

section \<open>Keys of the material totals\<close>

text \<open>
  C10. The totals of a returned result never have the key \<^verbatim>\<open>"name"\<close>: each of their keys
  is a key other than \<^verbatim>\<open>"name"\<close> of the catalog entry of a requested building, and is a
  key of \<^verbatim>\<open>RESOURCES\<close>.
\<close>

theorem name_never_a_material:
  assumes "compute_requirements duplicants days food_key buildings = Inr r"
  shows "''name'' \<notin> fst ` set (req_materials r) \<and>
         (\<forall>k \<in> fst ` set (req_materials r).
             \<exists>bkey info. bkey \<in> fst ` set buildings \<and> map_of BUILDINGS bkey = Some info \<and>
               k \<in> fst ` set info \<and> k \<noteq> ''name'') \<and>
         fst ` set (req_materials r) \<subseteq> fst ` set RESOURCES"
proof -
  from compute_requirements_InrD[OF assms]
  have m: "material_totals [] buildings = Inr (req_materials r)" .
  from material_totals_keys[OF m]
  have keys: "fst ` set (req_materials r) = requested_keys buildings" by simp
  have origin: "\<exists>bkey info. bkey \<in> fst ` set buildings \<and> map_of BUILDINGS bkey = Some info \<and>
               k \<in> fst ` set info \<and> k \<noteq> ''name''" if "k \<in> fst ` set (req_materials r)" for k
    using that keys requested_keys_iff[of k buildings] by simp
  have no_name: "''name'' \<notin> fst ` set (req_materials r)"
    using origin by blast
  have "k \<in> fst ` set RESOURCES" if "k \<in> fst ` set (req_materials r)" for k
  proof -
    from origin[OF that] obtain bkey info where
      "map_of BUILDINGS bkey = Some info" "k \<in> fst ` set info" "k \<noteq> ''name''" by blast
    then show ?thesis
      by (auto simp: BUILDINGS_def RESOURCES_def split: if_splits)
  qed
  with no_name origin show ?thesis by blast
qed

theorem name_never_a_material_witness:
  "compute_requirements 3 7 ''basic_meal'' [(''simple_bed'', 3), (''oxygen_generator'', 1)] =
     Inr \<lparr> req_duplicants = 3, req_days = 7,
           req_food = \<lparr> fd_key = ''basic_meal'', fd_units = 21,
                        fd_unit = Some (PyStr ''plate'') \<rparr>,
           req_materials = [(''iron_ore'', 110), (''algae'', 10)] \<rparr> \<and>
   ''name'' \<notin> fst ` set [(''iron_ore'', 110::int), (''algae'', 10)] \<and>
   fst ` set [(''iron_ore'', 110::int), (''algae'', 10)] \<subseteq> fst ` set RESOURCES"
proof -
  have r: "compute_requirements 3 7 ''basic_meal'' [(''simple_bed'', 3), (''oxygen_generator'', 1)] =
     Inr \<lparr> req_duplicants = 3, req_days = 7,
           req_food = \<lparr> fd_key = ''basic_meal'', fd_units = 21,
                        fd_unit = Some (PyStr ''plate'') \<rparr>,
           req_materials = [(''iron_ore'', 110), (''algae'', 10)] \<rparr>"
    by (simp add: compute_requirements_def FOODS_def BUILDINGS_def getitem_def get_default_def
      py_floordiv_def py_mod_def)
  from name_never_a_material[OF r] r show ?thesis by simp
qed

section \<open>Objects and the heap\<close>

lemma setitem_frame [simp]:
  "next_addr (setitem h m k v) = next_addr h"
  "a \<noteq> m \<Longrightarrow> objs (setitem h m k v) a = objs h a"
  by (simp_all add: setitem_def)

lemma heap_add_resources_frame:
  "heap_add_resources h m items count = (e, h') \<Longrightarrow>
   next_addr h' = next_addr h \<and> (\<forall>a. a \<noteq> m \<longrightarrow> objs h' a = objs h a)"
proof (induction h m items count arbitrary: e h' rule: heap_add_resources.induct)
  case (1 h materials count)
  then show ?case by simp
next
  case (2 h materials res_key qty rest count)
  show ?case
  proof (cases "res_key = ''name''")
    case True
    with 2 show ?thesis by simp
  next
    case False
    show ?thesis
    proof (cases "py_mul qty count")
      case (Inl err)
      with "2.prems" False show ?thesis by auto
    next
      case (Inr product)
      show ?thesis
      proof (cases "py_add (get_default (objs h materials) res_key (PyInt 0)) product")
        case (Inl err)
        with "2.prems" False \<open>py_mul qty count = Inr product\<close> show ?thesis by auto
      next
        case (Inr v)
        with "2.prems" False \<open>py_mul qty count = Inr product\<close>
        have "heap_add_resources (setitem h materials res_key v) materials rest count = (e, h')"
          by simp
        from "2.IH"(2)[OF False \<open>py_mul qty count = Inr product\<close> Inr this]
        show ?thesis by simp
      qed
    qed
  qed
qed

lemma heap_material_totals_frame:
  "heap_material_totals h m items = (e, h') \<Longrightarrow>
   next_addr h' = next_addr h \<and> (\<forall>a. a \<noteq> m \<longrightarrow> objs h' a = objs h a)"
proof (induction h m items arbitrary: e h' rule: heap_material_totals.induct)
  case (1 h materials)
  then show ?case by simp
next
  case (2 h materials bkey count rest)
  show ?case
  proof (cases "map_of (objs h BUILDINGS_addr) bkey")
    case None
    with "2.prems" have "heap_material_totals h materials rest = (e, h')" by simp
    from "2.IH"(1)[OF None this] show ?thesis .
  next
    case (Some info)
    show ?thesis
    proof (cases "falsy h info")
      case True
      with "2.prems" Some have "heap_material_totals h materials rest = (e, h')" by simp
      from "2.IH"(2)[OF Some True this] show ?thesis .
    next
      case False
      show ?thesis
      proof (cases info)
        case (PyInt i)
        with "2.prems" Some False show ?thesis by auto
      next
        case (PyStr s)
        with "2.prems" Some False show ?thesis by auto
      next
        case (PyRef a)
        obtain e1 h1 where inner: "heap_add_resources h materials (objs h a) count = (e1, h1)"
          by (cases "heap_add_resources h materials (objs h a) count")
        note f1 = heap_add_resources_frame[OF inner]
        show ?thesis
        proof (cases e1)
          case None
          with "2.prems" Some False PyRef inner
          have "heap_material_totals h1 materials rest = (e, h')" by simp
          from "2.IH"(3)[OF Some False PyRef inner[symmetric] None this]
          have "next_addr h' = next_addr h1 \<and> (\<forall>a. a \<noteq> materials \<longrightarrow> objs h' a = objs h1 a)"
            by simp
          with f1 show ?thesis by simp
        next
          case (Some err)
          with "2.prems" \<open>map_of (objs h BUILDINGS_addr) bkey = Some info\<close> False PyRef inner
          have "h' = h1" by simp
          with f1 show ?thesis by simp
        qed
      qed
    qed
  qed
qed

lemma heap_compute_requirements_frame:
  assumes "heap_compute_requirements h duplicants days food_key buildings = (res, h')"
  shows "next_addr h \<le> next_addr h' \<and> (\<forall>a. a \<noteq> next_addr h \<longrightarrow> objs h' a = objs h a)"
proof -
  define h1 where
    "h1 = h\<lparr> objs := (objs h)(next_addr h := []), next_addr := Suc (next_addr h) \<rparr>"
  have alloc: "alloc h [] = (h1, next_addr h)" by (simp add: alloc_def h1_def)
  obtain e h2 where loop: "heap_material_totals h1 (next_addr h) (objs h1 buildings) = (e, h2)"
    by (cases "heap_material_totals h1 (next_addr h) (objs h1 buildings)")
  from heap_material_totals_frame[OF loop]
  have h2: "next_addr h \<le> next_addr h2 \<and> (\<forall>a. a \<noteq> next_addr h \<longrightarrow> objs h2 a = objs h a)"
    by (simp add: h1_def)
  have "h' = h \<or> h' = h2"
  proof (cases "map_of (objs h FOODS_addr) food_key")
    case None
    with assms show ?thesis by (simp add: heap_compute_requirements_def)
  next
    case (Some food_info)
    note fi = this
    show ?thesis
    proof (cases "subscript h food_info ''calories''")
      case (Inl err)
      with assms fi show ?thesis by (simp add: heap_compute_requirements_def)
    next
      case (Inr calories_per_unit)
      note cal = this
      show ?thesis
      proof (cases "py_floordiv (duplicants * days * 1200) calories_per_unit")
        case (Inl err)
        with assms fi cal show ?thesis by (simp add: heap_compute_requirements_def)
      next
        case (Inr units_floor)
        note fl = this
        show ?thesis
        proof (cases "py_mod (duplicants * days * 1200) calories_per_unit")
          case (Inl err)
          with assms fi cal fl show ?thesis by (simp add: heap_compute_requirements_def)
        next
          case (Inr left_over)
          with assms fi cal fl alloc loop show ?thesis
            by (cases e) (simp_all add: heap_compute_requirements_def)
        qed
      qed
    qed
  qed
  with h2 show ?thesis by auto
qed

lemma store_simps [simp]:
  "next_addr (store h a d) = next_addr h"
  "objs (store h a d) a = d"
  "b \<noteq> a \<Longrightarrow> objs (store h a d) b = objs h b"
  "store (store h a d) a d' = store h a d'"
  "objs h a = d \<Longrightarrow> store h a d = h"
  by (auto simp: store_def)

lemma setitem_store:
  "setitem (store h a d) a k v = store h a (AList.update k v d)"
  by (simp add: setitem_def store_def)

lemma get_default_counts_dict:
  "get_default (counts_dict materials) k (PyInt 0) = PyInt (get_default materials k 0)"
  by (induction materials) (auto simp: counts_dict_def get_default_def)

lemma update_counts_dict:
  "AList.update k (PyInt v) (counts_dict materials) = counts_dict (AList.update k v materials)"
  by (induction materials) (auto simp: counts_dict_def)

lemma heap_add_resources_refines:
  "add_resources materials info count = Inr materials' \<Longrightarrow>
   heap_add_resources (store h m (counts_dict materials)) m info (PyInt count) =
     (None, store h m (counts_dict materials'))"
proof (induction materials info count arbitrary: materials' rule: add_resources.induct)
  case (1 materials count)
  then show ?case by simp
next
  case (2 materials res_key qty rest count)
  show ?case
  proof (cases "res_key = ''name''")
    case True
    with "2.prems" have "add_resources materials rest count = Inr materials'" by simp
    from "2.IH"(1)[OF True this] True show ?thesis by simp
  next
    case False
    with "2.prems" obtain q where q: "qty = PyInt q"
      by (cases qty) auto
    let ?m = "AList.update res_key (get_default materials res_key 0 + q * count) materials"
    from "2.prems" False q have "add_resources ?m rest count = Inr materials'"
      by simp
    from "2.IH"(2)[OF False q this] False q show ?thesis
      by (simp add: get_default_counts_dict setitem_store update_counts_dict)
  qed
qed

lemma module_objects_length: "length module_objects = 14"
  by (simp add: module_objects_def catalog_objects_def RESOURCES_def FOODS_def BUILDINGS_def)

lemma module_loaded_nth:
  assumes "module_loaded h" and "a < 14"
  shows "objs h a = module_objects ! a"
proof -
  from assms(1) have "map (objs h) [0..<14] = module_objects"
    by (simp add: module_loaded_def module_objects_length)
  then have "module_objects ! a = map (objs h) [0..<14] ! a" by simp
  also have "\<dots> = objs h a" using assms(2) by (simp del: upt_Suc)
  finally show ?thesis by simp
qed

lemma module_loaded_store:
  assumes "module_loaded h" and "14 \<le> m"
  shows "module_loaded (store h m d)"
proof -
  have "map (objs (store h m d)) [0..<14] = map (objs h) [0..<14]"
    using assms(2) by (intro map_cong) auto
  with assms(1) show ?thesis
    by (simp add: module_loaded_def module_objects_length)
qed

lemma module_objects_catalogs:
  "module_objects ! 9 =
     [(''mushroom'', PyRef 6), (''grilled_mushroom'', PyRef 7), (''basic_meal'', PyRef 8)]"
  "module_objects ! 13 =
     [(''simple_bed'', PyRef 10), (''oxygen_generator'', PyRef 11), (''water_pump'', PyRef 12)]"
  "module_objects ! 6 = snd (FOODS ! 0)" "module_objects ! 7 = snd (FOODS ! 1)"
  "module_objects ! 8 = snd (FOODS ! 2)"
  "module_objects ! 10 = snd (BUILDINGS ! 0)" "module_objects ! 11 = snd (BUILDINGS ! 1)"
  "module_objects ! 12 = snd (BUILDINGS ! 2)"
  by (simp_all add: module_objects_def catalog_objects_def RESOURCES_def FOODS_def BUILDINGS_def
      nth_append)

lemma loaded_FOODS:
  assumes "module_loaded h"
  shows "map_of FOODS k = None \<Longrightarrow> map_of (objs h FOODS_addr) k = None"
    and "map_of FOODS k = Some food_info \<Longrightarrow>
         \<exists>a<14. map_of (objs h FOODS_addr) k = Some (PyRef a) \<and> objs h a = food_info"
proof -
  have cat: "objs h FOODS_addr =
     [(''mushroom'', PyRef 6), (''grilled_mushroom'', PyRef 7), (''basic_meal'', PyRef 8)]"
    using module_loaded_nth[OF assms, of 9] by (simp add: FOODS_addr_def module_objects_catalogs)
  have entries: "objs h 6 = snd (FOODS ! 0)" "objs h 7 = snd (FOODS ! 1)" "objs h 8 = snd (FOODS ! 2)"
    using module_loaded_nth[OF assms, of 6] module_loaded_nth[OF assms, of 7]
      module_loaded_nth[OF assms, of 8] by (simp_all add: module_objects_catalogs)
  show "map_of FOODS k = None \<Longrightarrow> map_of (objs h FOODS_addr) k = None"
    unfolding cat by (simp add: FOODS_def split: if_splits)
  show "map_of FOODS k = Some food_info \<Longrightarrow>
         \<exists>a<14. map_of (objs h FOODS_addr) k = Some (PyRef a) \<and> objs h a = food_info"
    unfolding cat using entries by (auto simp: FOODS_def split: if_splits)
qed

lemma loaded_BUILDINGS:
  assumes "module_loaded h"
  shows "map_of BUILDINGS k = None \<Longrightarrow> map_of (objs h BUILDINGS_addr) k = None"
    and "map_of BUILDINGS k = Some info \<Longrightarrow>
         \<exists>a<14. map_of (objs h BUILDINGS_addr) k = Some (PyRef a) \<and> objs h a = info"
proof -
  have cat: "objs h BUILDINGS_addr =
     [(''simple_bed'', PyRef 10), (''oxygen_generator'', PyRef 11), (''water_pump'', PyRef 12)]"
    using module_loaded_nth[OF assms, of 13]
    by (simp add: BUILDINGS_addr_def module_objects_catalogs)
  have entries: "objs h 10 = snd (BUILDINGS ! 0)" "objs h 11 = snd (BUILDINGS ! 1)"
      "objs h 12 = snd (BUILDINGS ! 2)"
    using module_loaded_nth[OF assms, of 10] module_loaded_nth[OF assms, of 11]
      module_loaded_nth[OF assms, of 12] by (simp_all add: module_objects_catalogs)
  show "map_of BUILDINGS k = None \<Longrightarrow> map_of (objs h BUILDINGS_addr) k = None"
    unfolding cat by (simp add: BUILDINGS_def split: if_splits)
  show "map_of BUILDINGS k = Some info \<Longrightarrow>
         \<exists>a<14. map_of (objs h BUILDINGS_addr) k = Some (PyRef a) \<and> objs h a = info"
    unfolding cat using entries by (auto simp: BUILDINGS_def split: if_splits)
qed

lemma heap_material_totals_refines:
  assumes "module_loaded h" and "14 \<le> m"
    and "material_totals materials buildings = Inr materials'"
  shows "heap_material_totals (store h m (counts_dict materials)) m (counts_dict buildings) =
           (None, store h m (counts_dict materials'))"
  using assms(3)
proof (induction materials buildings arbitrary: materials' rule: material_totals.induct)
  case (1 materials)
  then show ?case by (simp add: counts_dict_def)
next
  case (2 materials bkey count rest)
  let ?h = "store h m (counts_dict materials)"
  have loaded: "module_loaded ?h" by (rule module_loaded_store[OF assms(1,2)])
  have cons: "counts_dict ((bkey, count) # rest) = (bkey, PyInt count) # counts_dict rest"
    by (simp add: counts_dict_def)
  show ?case
  proof (cases "map_of BUILDINGS bkey")
    case None
    with "2.prems" have "material_totals materials rest = Inr materials'" by simp
    from "2.IH"(1)[OF None this] loaded_BUILDINGS(1)[OF loaded None]
    show ?thesis by (simp add: cons)
  next
    case (Some info)
    from loaded_BUILDINGS(2)[OF loaded Some] obtain a where
      a: "a < 14" "map_of (objs ?h BUILDINGS_addr) bkey = Some (PyRef a)" "objs ?h a = info"
      by blast
    show ?thesis
    proof (cases "info = []")
      case True
      with "2.prems" Some have "material_totals materials rest = Inr materials'" by simp
      from "2.IH"(2)[OF Some True this] a True
      show ?thesis by (simp add: cons falsy_def)
    next
      case False
      from "2.prems" Some False obtain m1 where
        m1: "add_resources materials info count = Inr m1" and
        rest: "material_totals m1 rest = Inr materials'"
        by (auto split: sum.splits)
      from heap_add_resources_refines[OF m1, of h m]
      have inner: "heap_add_resources ?h m info (PyInt count) = (None, store h m (counts_dict m1))" .
      from "2.IH"(3)[OF Some False m1 rest] a False inner
      show ?thesis by (simp add: cons falsy_def)
    qed
  qed
qed

lemma module_loaded_module_heap: "module_loaded module_heap"
proof -
  have "map (objs module_heap) [0..<length module_objects] =
        map (\<lambda>a. module_objects ! a) [0..<length module_objects]"
    by (intro map_cong) (auto simp: module_heap_def)
  then show ?thesis
    by (simp add: module_loaded_def map_nth module_heap_def)
qed

lemma module_loaded_alloc:
  assumes "module_loaded h"
  shows "module_loaded (fst (alloc h d))"
proof -
  from assms have len: "14 \<le> next_addr h"
    by (simp add: module_loaded_def module_objects_length)
  have "map (objs (fst (alloc h d))) [0..<14] = map (objs h) [0..<14]"
    using len by (intro map_cong) (auto simp: alloc_def)
  with assms show ?thesis
    by (simp add: module_loaded_def module_objects_length alloc_def)
qed

lemma heap_compute_requirements_unknown:
  assumes "module_loaded h" and "map_of FOODS food_key = None"
  shows "heap_compute_requirements h duplicants days food_key buildings =
           (Inl (ValueError (''Unknown food: '' @ food_key)), h)"
  using loaded_FOODS(1)[OF assms] by (simp add: heap_compute_requirements_def)

lemma heap_compute_requirements_known:
  assumes loaded: "module_loaded h" and b: "buildings < next_addr h"
    and counts: "objs h buildings = counts_dict bs"
    and fi: "map_of FOODS food_key = Some food_info"
    and c: "map_of food_info ''calories'' = Some (PyInt c)" "c \<noteq> 0"
    and m: "material_totals [] bs = Inr materials"
  shows "heap_compute_requirements h duplicants days food_key buildings =
           (Inr (food_result duplicants days food_key food_info c (next_addr h)),
            store (fst (alloc h [])) (next_addr h) (counts_dict materials))"
proof -
  define h1 where "h1 = fst (alloc h [])"
  have alloc: "alloc h [] = (h1, next_addr h)" by (simp add: h1_def alloc_def)
  from loaded have len: "14 \<le> next_addr h"
    by (simp add: module_loaded_def module_objects_length)
  have loaded1: "module_loaded h1" unfolding h1_def by (rule module_loaded_alloc[OF loaded])
  have h1: "store h1 (next_addr h) (counts_dict []) = h1"
    by (simp add: h1_def alloc_def counts_dict_def store_def)
  have same: "objs h1 a = objs h a" if "a < next_addr h" for a
    using that by (simp add: h1_def alloc_def)
  from loaded_FOODS(2)[OF loaded fi] obtain a where
    a: "a < 14" "map_of (objs h FOODS_addr) food_key = Some (PyRef a)" "objs h a = food_info"
    by blast
  have cal: "subscript h (PyRef a) ''calories'' = Inr (PyInt c)"
    using a(3) c(1) by (simp add: subscript_def getitem_def)
  have loop: "heap_material_totals h1 (next_addr h) (objs h1 buildings) =
                (None, store h1 (next_addr h) (counts_dict materials))"
    using heap_material_totals_refines[OF loaded1 len m] h1 same[OF b] counts by simp
  have unit: "map_of (objs (store h1 (next_addr h) (counts_dict materials)) a) ''unit'' =
                map_of food_info ''unit''"
    using a(1,3) len same[of a] by simp
  show ?thesis
    using a(2) cal c(2) alloc loop unit
    by (simp add: heap_compute_requirements_def py_floordiv_def py_mod_def food_result_def
        h1_def[symmetric])
qed

lemma map_materials_food_result:
  "map_materials f (food_result duplicants days food_key food_info c x) =
     food_result duplicants days food_key food_info c (f x)"
  by (simp add: map_materials_def food_result_def)

lemma heap_observe:
  assumes loaded: "module_loaded h" and b: "buildings < next_addr h"
    and counts: "objs h buildings = counts_dict bs"
  shows "observe (heap_compute_requirements h duplicants days food_key buildings) =
           map_sum id (map_materials counts_dict)
             (compute_requirements duplicants days food_key bs)"
proof (cases "map_of FOODS food_key")
  case None
  from heap_compute_requirements_unknown[OF loaded None]
    compute_requirements_unknown[OF None]
  show ?thesis by (simp add: observe_def)
next
  case (Some food_info)
  from FOODS_calories[OF Some] obtain c where
    c: "map_of food_info ''calories'' = Some (PyInt c)" "c \<in> {120, 400, 1200}" by blast
  then have c0: "c \<noteq> 0" by auto
  from material_totals_returns obtain materials where
    m: "material_totals [] bs = Inr materials" by blast
  from heap_compute_requirements_known[OF loaded b counts Some c(1) c0 m]
    compute_requirements_value[OF Some c(1) c0 m]
  show ?thesis by (simp add: observe_def map_materials_food_result)
qed

text \<open>
  C8. A call writes no object that existed before it: whatever the heap and the
  arguments, and whether it returns or raises, every object allocated before the call
  (the catalogs, their entries and the \<^verbatim>\<open>buildings\<close> dictionary among them) has the same
  contents afterwards. When the module's objects are as the import left them and
  \<^verbatim>\<open>buildings\<close> is a dictionary of integer counts, both still hold after the call, what
  the caller observes is the value of \<^const>\<open>compute_requirements\<close> at the duplicants, the
  days, the food key and the contents of \<^verbatim>\<open>buildings\<close> (so it depends on nothing else
  in the heap), and calling again with the same arguments in the heap the call left
  yields the same observation.
\<close>

theorem call_is_pure_and_repeatable:
  assumes "heap_compute_requirements h duplicants days food_key buildings = (res, h')"
  shows "next_addr h \<le> next_addr h' \<and> (\<forall>a<next_addr h. objs h' a = objs h a) \<and>
         (module_loaded h \<and> buildings < next_addr h \<and> objs h buildings = counts_dict bs \<longrightarrow>
            module_loaded h' \<and> objs h' buildings = counts_dict bs \<and>
            observe (res, h') =
              map_sum id (map_materials counts_dict)
                (compute_requirements duplicants days food_key bs) \<and>
            observe (heap_compute_requirements h' duplicants days food_key buildings) =
              observe (res, h'))"
proof -
  from heap_compute_requirements_frame[OF assms]
  have grow: "next_addr h \<le> next_addr h'" and
    same: "\<And>a. a < next_addr h \<Longrightarrow> objs h' a = objs h a" by auto
  have later: "module_loaded h' \<and> objs h' buildings = counts_dict bs \<and>
            observe (res, h') =
              map_sum id (map_materials counts_dict)
                (compute_requirements duplicants days food_key bs) \<and>
            observe (heap_compute_requirements h' duplicants days food_key buildings) =
              observe (res, h')"
    if loaded: "module_loaded h" and b: "buildings < next_addr h"
      and counts: "objs h buildings = counts_dict bs"
  proof -
    from loaded have len: "14 \<le> next_addr h"
      by (simp add: module_loaded_def module_objects_length)
    have "map (objs h') [0..<14] = map (objs h) [0..<14]"
      using len same by (intro map_cong) auto
    with loaded grow len have loaded': "module_loaded h'"
      by (simp add: module_loaded_def module_objects_length)
    have counts': "objs h' buildings = counts_dict bs" using same[OF b] counts by simp
    have b': "buildings < next_addr h'" using b grow by simp
    from heap_observe[OF loaded b counts, of duplicants days food_key]
      heap_observe[OF loaded' b' counts', of duplicants days food_key] assms loaded' counts'
    show ?thesis by simp
  qed
  from grow same later show ?thesis by blast
qed

lemma sample_heap_loaded:
  "module_loaded sample_heap" "next_addr sample_heap = 15"
  "objs sample_heap 14 = counts_dict [(''simple_bed'', 3), (''oxygen_generator'', 1)]"
  using module_loaded_alloc[OF module_loaded_module_heap]
  by (simp_all add: sample_heap_def alloc_def module_heap_def module_objects_length
      counts_dict_def)

theorem call_is_pure_and_repeatable_witness:
  "module_loaded sample_heap \<and>
   objs sample_heap 14 = [(''simple_bed'', PyInt 3), (''oxygen_generator'', PyInt 1)] \<and>
   module_loaded (snd (heap_compute_requirements sample_heap 3 7 ''basic_meal'' 14)) \<and>
   objs (snd (heap_compute_requirements sample_heap 3 7 ''basic_meal'' 14)) 14 =
     [(''simple_bed'', PyInt 3), (''oxygen_generator'', PyInt 1)] \<and>
   observe (heap_compute_requirements sample_heap 3 7 ''basic_meal'' 14) =
     Inr \<lparr> req_duplicants = 3, req_days = 7,
           req_food = \<lparr> fd_key = ''basic_meal'', fd_units = 21,
                        fd_unit = Some (PyStr ''plate'') \<rparr>,
           req_materials = [(''iron_ore'', PyInt 110), (''algae'', PyInt 10)] \<rparr> \<and>
   observe (heap_compute_requirements
              (snd (heap_compute_requirements sample_heap 3 7 ''basic_meal'' 14))
              3 7 ''basic_meal'' 14) =
     observe (heap_compute_requirements sample_heap 3 7 ''basic_meal'' 14)"
proof -
  let ?out = "heap_compute_requirements sample_heap 3 7 ''basic_meal'' 14"
  have call: "?out = (fst ?out, snd ?out)" by simp
  have pure: "compute_requirements 3 7 ''basic_meal'' [(''simple_bed'', 3), (''oxygen_generator'', 1)] =
     Inr \<lparr> req_duplicants = 3, req_days = 7,
           req_food = \<lparr> fd_key = ''basic_meal'', fd_units = 21,
                        fd_unit = Some (PyStr ''plate'') \<rparr>,
           req_materials = [(''iron_ore'', 110), (''algae'', 10)] \<rparr>"
    by (simp add: compute_requirements_def FOODS_def BUILDINGS_def getitem_def get_default_def
      py_floordiv_def py_mod_def)
  from call_is_pure_and_repeatable[OF call, of "[(''simple_bed'', 3), (''oxygen_generator'', 1)]"]
    sample_heap_loaded pure
  show ?thesis by (simp add: map_materials_def counts_dict_def)
qed

section \<open>The shipped scenario\<close>

text \<open>
  C7. With the shipped catalogs, the request of 3 duplicants for 7 days eating
  \<^verbatim>\<open>basic_meal\<close>, with 3 \<^verbatim>\<open>simple_bed\<close> and 1 \<^verbatim>\<open>oxygen_generator\<close>, returns 21 units
  of food and the material totals \<^verbatim>\<open>{iron_ore: 110, algae: 10}\<close>.
\<close>

theorem sample_project_requirements:
  "compute_requirements 3 7 ''basic_meal'' [(''simple_bed'', 3), (''oxygen_generator'', 1)] =
     Inr \<lparr> req_duplicants = 3, req_days = 7,
           req_food = \<lparr> fd_key = ''basic_meal'', fd_units = 21,
                        fd_unit = Some (PyStr ''plate'') \<rparr>,
           req_materials = [(''iron_ore'', 110), (''algae'', 10)] \<rparr>"
  by (simp add: compute_requirements_def FOODS_def BUILDINGS_def getitem_def get_default_def
      py_floordiv_def py_mod_def)

end
